theory Spec2Isabelle
  imports Main "HOL-Library.Word"
begin

unbundle bit_operations_syntax

section \<open>The virtio pmem driver: data model\<close>

text \<open>
  A shallow embedding of \<^verbatim>\<open>drivers/nvdimm/virtio_pmem.c\<close>: the functions
  \<^verbatim>\<open>init_vq\<close>, \<^verbatim>\<open>virtio_pmem_probe\<close> and \<^verbatim>\<open>virtio_pmem_remove\<close>.
  The driver is a sequence of calls into the virtio core and the libnvdimm core. What
  those calls answer is an input of the driver (the record \<open>host\<close>); what they change is
  kept in an explicit state (the record \<open>world\<close>), which also logs every call in the order
  in which it is made. The diagnostics \<^verbatim>\<open>dev_err\<close> and \<^verbatim>\<open>dev_dbg\<close> have no effect
  on the state and are left out.
\<close>

type_synonym u8 = "8 word"
type_synonym u64 = "64 word"

text \<open>The errno values the driver returns (negated), and the value for "no node".\<close>

definition EINVAL :: int where "EINVAL = 22"
definition ENOMEM :: int where "ENOMEM = 12"
definition ENXIO :: int where "ENXIO = 6"
definition NUMA_NO_NODE :: int where "NUMA_NO_NODE = - 1"
definition MAX_ERRNO :: int where "MAX_ERRNO = 4095"

text \<open>
  A \<^verbatim>\<open>struct virtqueue *\<close>: the null pointer, a pointer to a queue, or a pointer
  value that encodes an errno. \<^verbatim>\<open>IS_ERR\<close> holds of the last page of the address
  space only, that is of the encoded values \<open>- MAX_ERRNO .. - 1\<close>.
\<close>

datatype vq_ptr = VQ_NULL | VQ nat | VQ_ERR int

fun IS_ERR :: "vq_ptr \<Rightarrow> bool" where
  "IS_ERR (VQ_ERR e) = (- MAX_ERRNO \<le> e \<and> e < 0)"
| "IS_ERR _ = False"

fun PTR_ERR :: "vq_ptr \<Rightarrow> int" where
  "PTR_ERR (VQ_ERR e) = e"
| "PTR_ERR (VQ n) = int n"
| "PTR_ERR VQ_NULL = 0"

text \<open>
  A spinlock and a list head inside memory that \<^verbatim>\<open>devm_kzalloc\<close> has zeroed are not
  yet initialised: \<^verbatim>\<open>spin_lock_init\<close> and \<^verbatim>\<open>INIT_LIST_HEAD\<close> make them an
  unheld lock and an empty list.
\<close>

datatype spinlock = LOCK_ZEROED | LOCK_UNLOCKED | LOCK_HELD

datatype list_head = LIST_ZEROED | LIST_OF "nat list"

text \<open>\<^verbatim>\<open>struct virtio_pmem\<close>, the device context.\<close>

record virtio_pmem =
  req_vq :: vq_ptr
  pmem_lock :: spinlock
  req_list :: list_head
  start :: u64
  size :: u64
  nvdimm_bus :: "nat option"
  provider_name :: string

definition kzalloc_virtio_pmem :: virtio_pmem where
  "kzalloc_virtio_pmem =
     \<lparr> req_vq = VQ_NULL, pmem_lock = LOCK_ZEROED, req_list = LIST_ZEROED,
       start = 0, size = 0, nvdimm_bus = None, provider_name = [] \<rparr>"

text \<open>\<^verbatim>\<open>struct nd_region_desc\<close>, with the \<^verbatim>\<open>struct resource\<close> it points to.\<close>

datatype nd_flag = ND_REGION_PAGEMAP | ND_REGION_ASYNC

datatype flush_fn = NO_FLUSH | ASYNC_PMEM_FLUSH

record nd_region_desc =
  res_start :: u64
  res_end :: u64
  numa_node :: int
  target_node :: int
  flush :: flush_fn
  flags :: "nd_flag set"

definition nd_region_desc_zero :: nd_region_desc where
  "nd_region_desc_zero =
     \<lparr> res_start = 0, res_end = 0, numa_node = 0, target_node = 0,
       flush = NO_FLUSH, flags = {} \<rparr>"

text \<open>The two fields of \<^verbatim>\<open>struct virtio_pmem_config\<close>.\<close>

datatype cfg_field = CFG_start | CFG_size

text \<open>The calls out of the driver, as they are logged.\<close>

datatype event =
    EV_find_single_vq string vq_ptr
  | EV_get_shm_region
  | EV_cread_le cfg_field
  | EV_bus_register "nat option"
  | EV_device_ready
  | EV_region_create nd_region_desc "nat option"
  | EV_reset_device
  | EV_bus_unregister
  | EV_del_vqs

text \<open>
  What the host and the kernel answer during one attach: whether the transport has a
  \<^verbatim>\<open>config->get\<close> operation, whether the allocation succeeds, the pointer that
  \<^verbatim>\<open>virtio_find_single_vq\<close> returns, the shared-memory region with the pmem id
  (address and length) if there is one, the bytes of the configuration space, the pointers
  that the two nvdimm registrations return (\<open>None\<close> is the null pointer) and the two
  node queries.
\<close>

record host =
  config_get :: bool
  kzalloc_ok :: bool
  find_single_vq :: vq_ptr
  shm_region :: "(u64 \<times> u64) option"
  config_space :: "nat \<Rightarrow> u8"
  bus_register :: "nat option"
  region_create :: "nat option"
  memory_add_physaddr_to_nid :: "u64 \<Rightarrow> int"
  phys_to_target_node :: "u64 \<Rightarrow> int"

text \<open>
  The state outside the function: \<^verbatim>\<open>vdev->priv\<close> with the context it points to, the
  driver data of the device, whether the device has its queue, whether it is marked
  ready, the bus that is registered with libnvdimm (by its handle), whether a region is
  registered, and the log.
\<close>

record world =
  priv :: "virtio_pmem option"
  drvdata :: "nat option"
  vq_allocated :: bool
  driver_ok :: bool
  registered_bus :: "nat option"
  region_registered :: bool
  trace :: "event list"

definition fresh :: world where
  "fresh = \<lparr> priv = None, drvdata = None, vq_allocated = False, driver_ok = False,
             registered_bus = None, region_registered = False, trace = [] \<rparr>"

text \<open>A bus is registered when libnvdimm holds one under some handle.\<close>

definition bus_registered :: "world \<Rightarrow> bool" where
  "bus_registered w = (registered_bus w \<noteq> None)"

definition log :: "event \<Rightarrow> world \<Rightarrow> world" where
  "log e w = w\<lparr>trace := trace w @ [e]\<rparr>"

definition upd_vpmem :: "(virtio_pmem \<Rightarrow> virtio_pmem) \<Rightarrow> world \<Rightarrow> world" where
  "upd_vpmem f w = w\<lparr>priv := map_option f (priv w)\<rparr>"

definition the_vpmem :: "world \<Rightarrow> virtio_pmem" where
  "the_vpmem w = (case priv w of Some v \<Rightarrow> v | None \<Rightarrow> kzalloc_virtio_pmem)"

section \<open>The primitives the driver calls\<close>

text \<open>
  Modelled from the spec: the queue allocation primitive ("a single named command-queue
  allocation primitive"), whose code is in the virtio core. A call that does not return
  an error pointer leaves the device with its queue.
\<close>

definition virtio_find_single_vq :: "host \<Rightarrow> string \<Rightarrow> world \<Rightarrow> vq_ptr \<times> world" where
  "virtio_find_single_vq h name w =
     (let q = find_single_vq h
      in (q, log (EV_find_single_vq name q)
               (w\<lparr>vq_allocated := (vq_allocated w \<or> \<not> IS_ERR q)\<rparr>)))"

text \<open>Modelled from the spec: \<^verbatim>\<open>del_vqs\<close> releases the queue of the device.\<close>

definition del_vqs :: "world \<Rightarrow> world" where
  "del_vqs w = log EV_del_vqs (w\<lparr>vq_allocated := False\<rparr>)"

text \<open>
  Modelled from the spec: the capability query "returning {address, length} for a named
  shared-memory region, or absent".
\<close>

definition virtio_get_shm_region :: "host \<Rightarrow> world \<Rightarrow> (u64 \<times> u64) option \<times> world" where
  "virtio_get_shm_region h w = (shm_region h, log EV_get_shm_region w)"

text \<open>
  Modelled from the spec: \<^verbatim>\<open>virtio_cread_le\<close> is a macro of the virtio core and
  \<^verbatim>\<open>struct virtio_pmem_config\<close> is declared in a header; the spec has "a
  configuration-space read returning two little-endian integers (start, size)". The two
  fields are taken to be 64 bits wide, as the fields of the context that receive them,
  and to lie one after the other, start first; a read takes the eight bytes of the field
  and decodes them with the least significant byte first.
\<close>

fun le_to_cpu :: "u8 list \<Rightarrow> u64" where
  "le_to_cpu [] = 0"
| "le_to_cpu (b # bs) = ucast b OR push_bit 8 (le_to_cpu bs)"

fun offsetof :: "cfg_field \<Rightarrow> nat" where
  "offsetof CFG_start = 0"
| "offsetof CFG_size = 8"

definition config_bytes :: "host \<Rightarrow> cfg_field \<Rightarrow> u8 list" where
  "config_bytes h f = map (config_space h) [offsetof f ..< offsetof f + 8]"

definition virtio_cread_le :: "host \<Rightarrow> cfg_field \<Rightarrow> world \<Rightarrow> u64 \<times> world" where
  "virtio_cread_le h f w = (le_to_cpu (config_bytes h f), log (EV_cread_le f) w)"

text \<open>
  Modelled from the spec: the "bus/device registration primitive yielding an opaque
  handle". A call that does not return the null pointer leaves the bus with the returned
  handle registered.
\<close>

definition nvdimm_bus_register :: "host \<Rightarrow> world \<Rightarrow> nat option \<times> world" where
  "nvdimm_bus_register h w =
     (let b = bus_register h
      in (b, log (EV_bus_register b)
               (case b of
                  None \<Rightarrow> w
                | Some x \<Rightarrow> w\<lparr>registered_bus := Some x\<rparr>)))"

text \<open>
  Modelled from the spec: the counterpart of the registration primitive. The call on the
  handle of the registered bus removes that bus and the region below it; on any other
  pointer it removes nothing. It does not touch the context of the driver.
\<close>

definition nvdimm_bus_unregister :: "nat option \<Rightarrow> world \<Rightarrow> world" where
  "nvdimm_bus_unregister b w =
     log EV_bus_unregister
       (case b of
          None \<Rightarrow> w
        | Some x \<Rightarrow>
            if registered_bus w = Some x
            then w\<lparr>registered_bus := None, region_registered := False\<rparr>
            else w)"

text \<open>
  Modelled from the spec: the "region-create primitive accepting {address range, flush
  callback, target node, flags}". A call that does not return the null pointer leaves a
  region registered.
\<close>

definition nvdimm_pmem_region_create ::
    "host \<Rightarrow> nat option \<Rightarrow> nd_region_desc \<Rightarrow> world \<Rightarrow> nat option \<times> world" where
  "nvdimm_pmem_region_create h b d w =
     (let r = region_create h
      in (r, log (EV_region_create d r)
               (w\<lparr>region_registered := (region_registered w \<or> r \<noteq> None)\<rparr>)))"

text \<open>Modelled from the spec: marking the device ready, and resetting it.\<close>

definition virtio_device_ready :: "world \<Rightarrow> world" where
  "virtio_device_ready w = log EV_device_ready (w\<lparr>driver_ok := True\<rparr>)"

definition virtio_reset_device :: "world \<Rightarrow> world" where
  "virtio_reset_device w = log EV_reset_device (w\<lparr>driver_ok := False\<rparr>)"

section \<open>The driver\<close>

text \<open>
  \<^verbatim>\<open>init_vq\<close>: the pointer returned for the queue is stored in the context whatever
  it is; an error pointer ends the function with its errno, before the lock and the list
  are initialised.
\<close>

definition init_vq :: "host \<Rightarrow> world \<Rightarrow> int \<times> world" where
  "init_vq h w =
     (let (q, w1) = virtio_find_single_vq h ''flush_queue'' w;
          w2 = upd_vpmem (\<lambda>v. v\<lparr>req_vq := q\<rparr>) w1
      in if IS_ERR q then (PTR_ERR q, w2)
         else (0, upd_vpmem (\<lambda>v. v\<lparr>pmem_lock := LOCK_UNLOCKED, req_list := LIST_OF []\<rparr>) w2))"

text \<open>The three exits of \<^verbatim>\<open>virtio_pmem_probe\<close>; each label falls through to the next.\<close>

definition out_err :: "int \<Rightarrow> world \<Rightarrow> int \<times> world" where
  "out_err err w = (err, w)"

definition out_vq :: "int \<Rightarrow> world \<Rightarrow> int \<times> world" where
  "out_vq err w = out_err err (del_vqs w)"

definition out_nd :: "int \<Rightarrow> world \<Rightarrow> int \<times> world" where
  "out_nd err w =
     out_vq err (nvdimm_bus_unregister (nvdimm_bus (the_vpmem w)) (virtio_reset_device w))"

text \<open>Lines 65 to 75: where the address and the size of the device come from.\<close>

definition discover :: "host \<Rightarrow> world \<Rightarrow> world" where
  "discover h w =
     (let (have_shm_region, w1) = virtio_get_shm_region h w
      in case have_shm_region of
           Some (addr, len) \<Rightarrow> upd_vpmem (\<lambda>v. v\<lparr>start := addr, size := len\<rparr>) w1
         | None \<Rightarrow>
             (let (s, w2) = virtio_cread_le h CFG_start w1;
                  w3 = upd_vpmem (\<lambda>v. v\<lparr>start := s\<rparr>) w2;
                  (z, w4) = virtio_cread_le h CFG_size w3
              in upd_vpmem (\<lambda>v. v\<lparr>size := z\<rparr>) w4))"

text \<open>Lines 92 to 105: the descriptor of the region.\<close>

definition make_ndr_desc :: "host \<Rightarrow> u64 \<Rightarrow> u64 \<Rightarrow> nd_region_desc" where
  "make_ndr_desc h rstart rend =
     (let d0 = nd_region_desc_zero\<lparr>res_start := rstart, res_end := rend\<rparr>;
          d1 = d0\<lparr>numa_node := memory_add_physaddr_to_nid h rstart\<rparr>;
          d2 = d1\<lparr>target_node := phys_to_target_node h rstart\<rparr>;
          d3 = (if target_node d2 = NUMA_NO_NODE
                then d2\<lparr>target_node := numa_node d2\<rparr> else d2);
          d4 = d3\<lparr>flush := ASYNC_PMEM_FLUSH\<rparr>;
          d5 = d4\<lparr>flags := insert ND_REGION_PAGEMAP (flags d4)\<rparr>
      in d5\<lparr>flags := insert ND_REGION_ASYNC (flags d5)\<rparr>)"

text \<open>
  \<^verbatim>\<open>virtio_pmem_probe\<close>. The context is allocated zeroed and \<^verbatim>\<open>vdev->priv\<close> is
  set to it before anything else is done with it, so the model keeps the context under
  \<open>priv\<close> from the allocation on. The end of the resource is computed on 64-bit
  unsigned values.
\<close>

definition virtio_pmem_probe :: "host \<Rightarrow> world \<Rightarrow> int \<times> world" where
  "virtio_pmem_probe h w =
     (if \<not> config_get h then (- EINVAL, w)
      else if \<not> kzalloc_ok h then out_err (- ENOMEM) w
      else
        let w1 = w\<lparr>priv := Some kzalloc_virtio_pmem\<rparr>;
            (err, w2) = init_vq h w1
        in if err \<noteq> 0 then out_err err w2
           else
             let w3 = discover h w2;
                 rstart = start (the_vpmem w3);
                 rend = start (the_vpmem w3) + size (the_vpmem w3) - 1;
                 w4 = upd_vpmem (\<lambda>v. v\<lparr>provider_name := ''virtio-pmem''\<rparr>) w3;
                 (b, w5) = nvdimm_bus_register h w4;
                 w6 = upd_vpmem (\<lambda>v. v\<lparr>nvdimm_bus := b\<rparr>) w5
             in if b = None then out_vq (- ENXIO) w6
                else
                  let w7 = w6\<lparr>drvdata := b\<rparr>;
                      d = make_ndr_desc h rstart rend;
                      w8 = virtio_device_ready w7;
                      (r, w9) = nvdimm_pmem_region_create h b d w8
                  in if r = None then out_nd (- ENXIO) w9
                     else (0, w9))"


section \<open>Reading the log\<close>

text \<open>
  What \<^verbatim>\<open>discover\<close> stores and what it logs, in closed form (see \<open>discover_eq\<close> below).
\<close>

definition discovered :: "host \<Rightarrow> u64 \<times> u64" where
  "discovered h =
     (case shm_region h of
        Some (addr, len) \<Rightarrow> (addr, len)
      | None \<Rightarrow> (le_to_cpu (config_bytes h CFG_start), le_to_cpu (config_bytes h CFG_size)))"

definition discover_events :: "host \<Rightarrow> event list" where
  "discover_events h =
     (case shm_region h of
        Some _ \<Rightarrow> [EV_get_shm_region]
      | None \<Rightarrow> [EV_get_shm_region, EV_cread_le CFG_start, EV_cread_le CFG_size])"

text \<open>The descriptors that were handed to the region-create primitive, in order.\<close>

fun region_descs :: "event list \<Rightarrow> nd_region_desc list" where
  "region_descs [] = []"
| "region_descs (EV_region_create d r # es) = d # region_descs es"
| "region_descs (_ # es) = region_descs es"

text \<open>
  The resources of an attach. An event acquires a resource when the call succeeds, and
  the calls of the exit labels release them.
\<close>

datatype resource = RES_queue | RES_bus | RES_ready | RES_region

fun acquired :: "event list \<Rightarrow> resource list" where
  "acquired [] = []"
| "acquired (EV_find_single_vq n q # es) =
     (if IS_ERR q then acquired es else RES_queue # acquired es)"
| "acquired (EV_bus_register b # es) =
     (if b = None then acquired es else RES_bus # acquired es)"
| "acquired (EV_device_ready # es) = RES_ready # acquired es"
| "acquired (EV_region_create d r # es) =
     (if r = None then acquired es else RES_region # acquired es)"
| "acquired (_ # es) = acquired es"

fun released :: "event list \<Rightarrow> resource list" where
  "released [] = []"
| "released (EV_reset_device # es) = RES_ready # released es"
| "released (EV_bus_unregister # es) = RES_bus # released es"
| "released (EV_del_vqs # es) = RES_queue # released es"
| "released (_ # es) = released es"

text \<open>
  \<open>precedes a b es\<close>: no \<open>b\<close> occurs in \<open>es\<close> before the first \<open>a\<close>.
\<close>

fun precedes :: "event \<Rightarrow> event \<Rightarrow> event list \<Rightarrow> bool" where
  "precedes a b [] = True"
| "precedes a b (e # es) = (if e = a then True else e \<noteq> b \<and> precedes a b es)"

text \<open>The same, for the events that create a region, whatever their descriptor.\<close>

fun is_region_create :: "event \<Rightarrow> bool" where
  "is_region_create (EV_region_create d r) = True"
| "is_region_create _ = False"

fun ready_before_create :: "event list \<Rightarrow> bool" where
  "ready_before_create [] = True"
| "ready_before_create (e # es) =
     (if e = EV_device_ready then True
      else \<not> is_region_create e \<and> ready_before_create es)"

section \<open>Concrete hosts\<close>

text \<open>
  A host on which every step of the attach succeeds and which advertises the pmem region
  as a shared-memory capability: 1 GiB at 4 GiB. Its configuration space holds other
  values (start \<open>0x0000000200000000\<close>, size \<open>0x0000000000100000\<close>), least significant
  byte first. The platform knows no target node for any address.
\<close>

definition host_shm :: host where
  "host_shm =
     \<lparr> config_get = True, kzalloc_ok = True, find_single_vq = VQ 1,
       shm_region = Some (0x100000000, 0x40000000),
       config_space = (\<lambda>i. if i = 4 then 2 else if i = 10 then 0x10 else 0),
       bus_register = Some 7, region_create = Some 9,
       memory_add_physaddr_to_nid = (\<lambda>a. if a < 0x100000000 then 0 else 1),
       phys_to_target_node = (\<lambda>a. - 1) \<rparr>"

text \<open>The same host without the capability, and with a platform that resolves node 3.\<close>

definition host_cfg :: host where
  "host_cfg = host_shm\<lparr>shm_region := None, phys_to_target_node := (\<lambda>a. 3)\<rparr>"

text \<open>A transport without \<^verbatim>\<open>config->get\<close> that still advertises the capability.\<close>

definition host_no_get :: host where
  "host_no_get = host_shm\<lparr>config_get := False\<rparr>"

text \<open>Hosts on which one step fails.\<close>

definition host_vq_einval :: host where
  "host_vq_einval = host_shm\<lparr>find_single_vq := VQ_ERR (- 22)\<rparr>"

definition host_bus_fail :: host where
  "host_bus_fail = host_shm\<lparr>bus_register := None\<rparr>"

definition host_region_fail :: host where
  "host_region_fail = host_shm\<lparr>region_create := None\<rparr>"

text \<open>A host whose region ends beyond the last 64-bit address.\<close>

definition host_wrap :: host where
  "host_wrap = host_shm\<lparr>shm_region := Some (0xFFFFFFFFFFFFFFFF, 2)\<rparr>"


text \<open>
  The context and the region descriptor of an attach that got past the queue, in closed
  form (see \<open>probe_bus_fail\<close>, \<open>probe_region_fail\<close> and \<open>probe_ok\<close> below).
\<close>

definition probe_ctx :: "host \<Rightarrow> virtio_pmem" where
  "probe_ctx h = kzalloc_virtio_pmem
     \<lparr>req_vq := find_single_vq h, pmem_lock := LOCK_UNLOCKED, req_list := LIST_OF [],
      start := fst (discovered h), size := snd (discovered h),
      nvdimm_bus := bus_register h, provider_name := ''virtio-pmem''\<rparr>"

definition probe_desc :: "host \<Rightarrow> nd_region_desc" where
  "probe_desc h = make_ndr_desc h (fst (discovered h)) (fst (discovered h) + snd (discovered h) - 1)"

section \<open>The flush engine\<close>

text \<open>
  The submission of flush requests and the handling of completions are not in
  \<^verbatim>\<open>virtio_pmem.c\<close>, which only names the completion callback and initialises the lock
  and the list. They are modelled here as the spec describes them, one step at a time:
  the device lock of the spec makes each step atomic, so a run of the engine is a sequence
  of submissions and completions.
\<close>

datatype outcome = Success | IoError int | Quiesced

text \<open>
  Modelled from the spec: a flush request has "a unique sequence token", "a completion
  slot (success/error outcome, initially unset)" and belongs to the caller that submitted
  it.
\<close>

record flush_request =
  token :: nat
  caller :: nat
  slot :: "outcome option"

text \<open>
  Modelled from the spec: the pending collection, "insertion-ordered (FIFO by
  submission)", the source of fresh tokens, and the descriptors placed on the single
  command queue.
\<close>

record flush_queue =
  pending :: "flush_request list"
  next_token :: nat
  hw_queue :: "nat list"

definition flush_queue_init :: flush_queue where
  "flush_queue_init = \<lparr> pending = [], next_token = 0, hw_queue = [] \<rparr>"

definition new_request :: "nat \<times> nat \<Rightarrow> flush_request" where
  "new_request p = \<lparr> token = fst p, caller = snd p, slot = None \<rparr>"

text \<open>
  Modelled from the spec: steps 1 to 4 of \<^verbatim>\<open>submit_flush\<close>, "allocate a new Flush
  request with a fresh sequence token; append it to the tail of the pending collection;
  place a descriptor referencing this request's token onto the hardware command queue".
  The result is the token and the new state; the caller then waits for its slot.
\<close>

definition submit_flush :: "nat \<Rightarrow> flush_queue \<Rightarrow> nat \<times> flush_queue" where
  "submit_flush c q =
     (let t = next_token q
      in (t, q\<lparr>pending := pending q @ [new_request (t, c)],
               next_token := Suc t,
               hw_queue := hw_queue q @ [t]\<rparr>))"

text \<open>Callers submitting one after the other; the result lists who was given which token.\<close>

fun submit_all :: "nat list \<Rightarrow> flush_queue \<Rightarrow> (nat \<times> nat) list \<times> flush_queue" where
  "submit_all [] q = ([], q)"
| "submit_all (c # cs) q =
     (let (t, q1) = submit_flush c q;
          (issued, q2) = submit_all cs q1
      in ((t, c) # issued, q2))"

text \<open>
  Modelled from the spec: the completion dispatcher, for one finished descriptor (a token
  and the status the host reports). "Look up the pending request whose sequence token
  matches the descriptor; remove it from the pending collection; record the
  host-reported status into its completion slot; signal the waiting caller." A descriptor
  whose token is not pending "is dropped silently". The result is the caller that is
  signalled, with the outcome it finds in its slot, if there is one.
\<close>

definition complete ::
    "nat \<times> outcome \<Rightarrow> flush_queue \<Rightarrow> (nat \<times> outcome) option \<times> flush_queue" where
  "complete d q =
     (case find (\<lambda>r. token r = fst d) (pending q) of
        None \<Rightarrow> (None, q)
      | Some r \<Rightarrow>
          (Some (caller r, snd d), q\<lparr>pending := remove1 r (pending q)\<rparr>))"

text \<open>The dispatcher on the completions of the host, in the order in which they arrive.\<close>

fun dispatch ::
    "(nat \<times> outcome) list \<Rightarrow> flush_queue \<Rightarrow> (nat \<times> outcome) option list \<times> flush_queue" where
  "dispatch [] q = ([], q)"
| "dispatch (d # ds) q =
     (let (w, q1) = complete d q;
          (ws, q2) = dispatch ds q1
      in (w # ws, q2))"

section \<open>Paths through the attach\<close>

lemmas prim_defs = virtio_find_single_vq_def del_vqs_def virtio_get_shm_region_def
  virtio_cread_le_def nvdimm_bus_register_def nvdimm_bus_unregister_def
  nvdimm_pmem_region_create_def virtio_device_ready_def virtio_reset_device_def
  log_def upd_vpmem_def the_vpmem_def

lemmas exit_defs = out_err_def out_vq_def out_nd_def

lemma IS_ERR_nonzero: "IS_ERR q \<Longrightarrow> PTR_ERR q \<noteq> 0"
  by (cases q) auto

lemma discover_eq:
  "discover h w =
     upd_vpmem (\<lambda>v. v\<lparr>start := fst (discovered h), size := snd (discovered h)\<rparr>)
       (w\<lparr>trace := trace w @ discover_events h\<rparr>)"
  by (cases "priv w")
     (simp_all add: discover_def discovered_def discover_events_def prim_defs
        split: option.splits)

lemma probe_no_get:
  "\<not> config_get h \<Longrightarrow> virtio_pmem_probe h w = (- EINVAL, w)"
  by (simp add: virtio_pmem_probe_def)

lemma probe_no_mem:
  "config_get h \<Longrightarrow> \<not> kzalloc_ok h \<Longrightarrow> virtio_pmem_probe h w = (- ENOMEM, w)"
  by (simp add: virtio_pmem_probe_def out_err_def)

lemma probe_vq_fail:
  assumes "config_get h" "kzalloc_ok h" "IS_ERR (find_single_vq h)"
  shows "virtio_pmem_probe h w =
     (PTR_ERR (find_single_vq h),
      w\<lparr>priv := Some (kzalloc_virtio_pmem\<lparr>req_vq := find_single_vq h\<rparr>),
        trace := trace w @ [EV_find_single_vq ''flush_queue'' (find_single_vq h)]\<rparr>)"
  using assms
  by (simp add: virtio_pmem_probe_def init_vq_def exit_defs prim_defs Let_def IS_ERR_nonzero)

lemma probe_bus_fail:
  assumes "config_get h" "kzalloc_ok h" "\<not> IS_ERR (find_single_vq h)" "bus_register h = None"
  shows "virtio_pmem_probe h w =
     (- ENXIO,
      w\<lparr>priv := Some (probe_ctx h), vq_allocated := False,
        trace := trace w @ EV_find_single_vq ''flush_queue'' (find_single_vq h)
                   # discover_events h @ [EV_bus_register None, EV_del_vqs]\<rparr>)"
  using assms
  by (simp add: virtio_pmem_probe_def init_vq_def discover_eq exit_defs prim_defs Let_def
      probe_ctx_def ENXIO_def)

lemma probe_region_fail:
  assumes "config_get h" "kzalloc_ok h" "\<not> IS_ERR (find_single_vq h)"
    "bus_register h = Some b" "region_create h = None"
  shows "virtio_pmem_probe h w =
     (- ENXIO,
      w\<lparr>priv := Some (probe_ctx h), drvdata := bus_register h, vq_allocated := False,
        driver_ok := False, registered_bus := None, region_registered := False,
        trace := trace w @ EV_find_single_vq ''flush_queue'' (find_single_vq h)
                   # discover_events h
                   @ [EV_bus_register (bus_register h), EV_device_ready,
                      EV_region_create (probe_desc h) None,
                      EV_reset_device, EV_bus_unregister, EV_del_vqs]\<rparr>)"
  using assms
  by (simp add: virtio_pmem_probe_def init_vq_def discover_eq exit_defs prim_defs Let_def
      probe_ctx_def probe_desc_def ENXIO_def)

lemma probe_ok:
  assumes "config_get h" "kzalloc_ok h" "\<not> IS_ERR (find_single_vq h)"
    "bus_register h = Some b" "region_create h = Some r"
  shows "virtio_pmem_probe h w =
     (0,
      w\<lparr>priv := Some (probe_ctx h), drvdata := bus_register h, vq_allocated := True,
        driver_ok := True, registered_bus := Some b, region_registered := True,
        trace := trace w @ EV_find_single_vq ''flush_queue'' (find_single_vq h)
                   # discover_events h
                   @ [EV_bus_register (bus_register h), EV_device_ready,
                      EV_region_create (probe_desc h) (region_create h)]\<rparr>)"
  using assms
  by (simp add: virtio_pmem_probe_def init_vq_def discover_eq exit_defs prim_defs Let_def
      probe_ctx_def probe_desc_def)

lemma probe_cases:
  obtains (no_get) "\<not> config_get h"
  | (no_mem) "config_get h" "\<not> kzalloc_ok h"
  | (vq_fail) "config_get h" "kzalloc_ok h" "IS_ERR (find_single_vq h)"
  | (bus_fail) "config_get h" "kzalloc_ok h" "\<not> IS_ERR (find_single_vq h)"
      "bus_register h = None"
  | (region_fail) b where "config_get h" "kzalloc_ok h" "\<not> IS_ERR (find_single_vq h)"
      "bus_register h = Some b" "region_create h = None"
  | (ok) b r where "config_get h" "kzalloc_ok h" "\<not> IS_ERR (find_single_vq h)"
      "bus_register h = Some b" "region_create h = Some r"
  by (cases "bus_register h"; cases "region_create h") auto

lemma region_descs_append: "region_descs (xs @ ys) = region_descs xs @ region_descs ys"
  by (induction xs rule: region_descs.induct) simp_all

lemma acquired_append: "acquired (xs @ ys) = acquired xs @ acquired ys"
  by (induction xs rule: acquired.induct) simp_all

lemma released_append: "released (xs @ ys) = released xs @ released ys"
  by (induction xs rule: released.induct) simp_all

lemma discover_events_plain:
  "region_descs (discover_events h) = []" "acquired (discover_events h) = []"
  "released (discover_events h) = []"
  by (simp_all add: discover_events_def split: option.splits)

lemma discover_events_shm:
  "shm_region h = Some p \<Longrightarrow> discover_events h = [EV_get_shm_region]"
  by (simp add: discover_events_def)

lemma discover_events_cfg:
  "shm_region h = None \<Longrightarrow>
   discover_events h = [EV_get_shm_region, EV_cread_le CFG_start, EV_cread_le CFG_size]"
  by (simp add: discover_events_def)

section \<open>Concrete hosts, evaluated\<close>

lemma host_shm_ok:
  "config_get host_shm" "kzalloc_ok host_shm" "\<not> IS_ERR (find_single_vq host_shm)"
  "bus_register host_shm = Some 7" "region_create host_shm = Some 9"
  "shm_region host_shm = Some (0x100000000, 0x40000000)"
  by (simp_all add: host_shm_def)

lemma host_cfg_ok:
  "config_get host_cfg" "kzalloc_ok host_cfg" "\<not> IS_ERR (find_single_vq host_cfg)"
  "bus_register host_cfg = Some 7" "region_create host_cfg = Some 9"
  "shm_region host_cfg = None"
  by (simp_all add: host_cfg_def host_shm_def)

lemma host_fail_facts:
  "IS_ERR (find_single_vq host_vq_einval)" "config_get host_vq_einval"
  "kzalloc_ok host_vq_einval"
  "config_get host_bus_fail" "kzalloc_ok host_bus_fail"
  "\<not> IS_ERR (find_single_vq host_bus_fail)" "bus_register host_bus_fail = None"
  "config_get host_region_fail" "kzalloc_ok host_region_fail"
  "\<not> IS_ERR (find_single_vq host_region_fail)" "bus_register host_region_fail = Some 7"
  "region_create host_region_fail = None"
  by (simp_all add: host_vq_einval_def host_bus_fail_def host_region_fail_def host_shm_def
      MAX_ERRNO_def)

lemma host_fail_results:
  "fst (virtio_pmem_probe host_vq_einval fresh) = - 22"
  "fst (virtio_pmem_probe host_bus_fail fresh) = - 6"
  "fst (virtio_pmem_probe host_region_fail fresh) = - 6"
  by (simp_all add: probe_vq_fail probe_bus_fail probe_region_fail host_fail_facts ENXIO_def,
      simp add: host_vq_einval_def)


section \<open>Decoding a field of the configuration space\<close>

lemma ucast_or_push_bit:
  fixes b :: u8 and w :: u64
  shows "ucast b OR push_bit 8 w = (word_of_nat (unat b) :: u64) + 256 * w"
proof -
  have "ucast b AND push_bit 8 w = (0 :: u64)"
    by (rule bit_eqI) (auto simp add: bit_simps dest: bit_imp_le_length)
  then have "ucast b + push_bit 8 w = ucast b OR push_bit 8 w"
    by (rule disjunctive_add_eq_or)
  then show ?thesis
    by (simp add: push_bit_eq_mult mult.commute)
qed

lemma le_to_cpu_horner: "le_to_cpu bs = word_of_nat (horner_sum unat 256 bs)"
  by (induction bs) (simp_all add: ucast_or_push_bit)

lemma horner_sum_bytes_bound: "horner_sum unat 256 (bs :: u8 list) < 256 ^ length bs"
proof (induction bs)
  case Nil
  show ?case by simp
next
  case (Cons b bs)
  have "unat b < 256" using unsigned_less [of b, where ?'a = nat] by simp
  with Cons show ?case by simp
qed

lemma unat_le_to_cpu:
  assumes "length bs \<le> 8"
  shows "unat (le_to_cpu bs) = (\<Sum>i = 0..<length bs. unat (bs ! i) * 256 ^ i)"
proof -
  have "(256::nat) ^ length bs \<le> 256 ^ 8"
    using assms by (intro power_increasing) simp_all
  with horner_sum_bytes_bound [of bs] have "horner_sum unat 256 bs < 2 ^ 64"
    by simp
  then have "unat (le_to_cpu bs) = horner_sum unat 256 bs"
    by (simp add: le_to_cpu_horner unat_of_nat)
  then show ?thesis
    by (simp add: horner_sum_eq_sum)
qed

lemma unat_config_field:
  "unat (le_to_cpu (config_bytes h f)) =
     (\<Sum>i = 0..<8. unat (config_space h (offsetof f + i)) * 256 ^ i)"
  using unat_le_to_cpu [of "config_bytes h f"]
  by (simp add: config_bytes_def)

lemma sum_upt_8:
  fixes f :: "nat \<Rightarrow> nat"
  shows "(\<Sum>i = 0..<8. f i) = f 0 + f 1 + f 2 + f 3 + f 4 + f 5 + f 6 + f 7"
  by (simp add: eval_nat_numeral)

section \<open>The context and the descriptor after the queue\<close>

lemma probe_past_vq:
  assumes "config_get h" "kzalloc_ok h" "\<not> IS_ERR (find_single_vq h)"
  shows "priv (snd (virtio_pmem_probe h w)) = Some (probe_ctx h)"
    and "\<exists>evs. trace (snd (virtio_pmem_probe h w)) =
           trace w @ EV_find_single_vq ''flush_queue'' (find_single_vq h)
             # discover_events h @ evs"
  using assms
  by (cases h rule: probe_cases; simp add: probe_bus_fail probe_region_fail probe_ok)+

lemma probe_region_descs:
  assumes "config_get h" "kzalloc_ok h" "\<not> IS_ERR (find_single_vq h)" "bus_register h = Some b"
  shows "region_descs (trace (snd (virtio_pmem_probe h fresh))) = [probe_desc h]"
    and "the_vpmem (snd (virtio_pmem_probe h fresh)) = probe_ctx h"
  using assms
  by (cases "region_create h";
      simp add: probe_region_fail probe_ok fresh_def region_descs_append
        discover_events_plain the_vpmem_def)+

lemma uint_end:
  fixes a b :: u64
  shows "uint (a + b - 1) = (uint a + uint b - 1) mod 2 ^ 64"
  by (simp add: uint_word_ariths mod_diff_left_eq)

section \<open>Lemmas on the flush engine\<close>

lemma submit_all_issued:
  "submit_all cs q = (issued, q') \<Longrightarrow>
     issued = zip [next_token q ..< next_token q + length cs] cs
     \<and> pending q' = pending q @ map new_request issued
     \<and> next_token q' = next_token q + length cs"
proof (induction cs arbitrary: q issued q')
  case Nil
  then show ?case by simp
next
  case (Cons c cs)
  let ?t = "next_token q"
  let ?q1 = "snd (submit_flush c q)"
  obtain issued1 q2 where r: "submit_all cs ?q1 = (issued1, q2)"
    by (cases "submit_all cs ?q1")
  have q1: "next_token ?q1 = Suc ?t" "pending ?q1 = pending q @ [new_request (?t, c)]"
    by (simp_all add: submit_flush_def Let_def)
  have upt: "[?t ..< ?t + length (c # cs)] = ?t # [Suc ?t ..< Suc ?t + length cs]"
    by (subst upt_rec) simp
  from Cons.prems r have res: "issued = (?t, c) # issued1" "q' = q2"
    by (simp_all add: submit_flush_def Let_def)
  from Cons.IH [OF r] show ?case
    unfolding res upt q1 by simp
qed

lemma find_new_request:
  "distinct (map fst issued) \<Longrightarrow> (t, c) \<in> set issued \<Longrightarrow>
     find (\<lambda>r. token r = t) (map new_request issued) = Some (new_request (t, c))"
proof (induction issued)
  case Nil
  then show ?case by simp
next
  case (Cons p issued)
  then show ?case
    by (cases p) (auto simp add: new_request_def rev_image_eqI)
qed

lemma find_remove1_other:
  "\<not> P r \<Longrightarrow> find P (remove1 r xs) = find P xs"
  by (induction xs) auto

lemma dispatch_by_token:
  assumes "distinct (map fst ds)"
    and "\<forall>d \<in> set ds. find (\<lambda>r. token r = fst d) (pending q) \<noteq> None"
  shows "fst (dispatch ds q) =
     map (\<lambda>d. Some (caller (the (find (\<lambda>r. token r = fst d) (pending q))), snd d)) ds"
  using assms
proof (induction ds arbitrary: q)
  case Nil
  then show ?case by simp
next
  case (Cons d ds)
  from Cons.prems(2) obtain r where r: "find (\<lambda>r. token r = fst d) (pending q) = Some r"
    by auto
  then have tr: "token r = fst d"
    by (auto simp add: find_Some_iff)
  let ?q1 = "q\<lparr>pending := remove1 r (pending q)\<rparr>"
  have same: "find (\<lambda>r. token r = fst e) (pending ?q1) = find (\<lambda>r. token r = fst e) (pending q)"
    if "e \<in> set ds" for e
  proof -
    from Cons.prems(1) have "fst d \<notin> fst ` set ds" by simp
    with that have "fst e \<noteq> fst d" by (metis imageI)
    with tr show ?thesis by (simp add: find_remove1_other)
  qed
  have "fst (dispatch ds ?q1) =
     map (\<lambda>d. Some (caller (the (find (\<lambda>r. token r = fst d) (pending ?q1))), snd d)) ds"
    using Cons.prems same by (intro Cons.IH) auto
  also have "\<dots> = map (\<lambda>d. Some (caller (the (find (\<lambda>r. token r = fst d) (pending q))), snd d)) ds"
    using same by (intro map_cong) auto
  finally show ?case
    using r by (simp add: complete_def case_prod_beta)
qed

section \<open>Region discovery\<close>

text \<open>
  Claim C1. When the host advertises the shared-memory region with the pmem id, the attach
  logs no read of a configuration field, whatever its outcome, and once the attach is past
  the queue the address and the size in the context are the address and the length of
  that region.
\<close>

theorem capability_region_used_verbatim:
  assumes "shm_region h = Some (addr, len)"
  shows "\<exists>evs. trace (snd (virtio_pmem_probe h w)) = trace w @ evs
           \<and> (\<forall>f. EV_cread_le f \<notin> set evs)
           \<and> (config_get h \<and> kzalloc_ok h \<and> \<not> IS_ERR (find_single_vq h) \<longrightarrow>
                start (the_vpmem (snd (virtio_pmem_probe h w))) = addr
                \<and> size (the_vpmem (snd (virtio_pmem_probe h w))) = len)"
proof (cases h rule: probe_cases)
  case no_get
  then show ?thesis by (simp add: probe_no_get)
next
  case no_mem
  then show ?thesis by (simp add: probe_no_mem)
next
  case vq_fail
  then show ?thesis by (simp add: probe_vq_fail)
next
  case bus_fail
  then show ?thesis
    using assms
    by (simp add: probe_bus_fail discover_events_shm the_vpmem_def probe_ctx_def discovered_def)
next
  case (region_fail b)
  then show ?thesis
    using assms
    by (simp add: probe_region_fail discover_events_shm the_vpmem_def probe_ctx_def discovered_def)
next
  case (ok b r)
  then show ?thesis
    using assms
    by (simp add: probe_ok discover_events_shm the_vpmem_def probe_ctx_def discovered_def)
qed

text \<open>
  Claim C1 on \<open>host_shm\<close>, which advertises 1 GiB at 4 GiB.
\<close>

theorem capability_region_used_verbatim_witness:
  "shm_region host_shm = Some (0x100000000, 0x40000000)
   \<and> start (the_vpmem (snd (virtio_pmem_probe host_shm fresh))) = 0x100000000
   \<and> size (the_vpmem (snd (virtio_pmem_probe host_shm fresh))) = 0x40000000
   \<and> EV_cread_le CFG_start \<notin> set (trace (snd (virtio_pmem_probe host_shm fresh)))
   \<and> EV_cread_le CFG_size \<notin> set (trace (snd (virtio_pmem_probe host_shm fresh)))"
  using capability_region_used_verbatim [of host_shm "0x100000000" "0x40000000" fresh]
  by (simp add: host_shm_ok fresh_def)

text \<open>
  Claim C2. When no shared-memory region is advertised and the attach is past the queue,
  both fields of the configuration structure are read, and the address and the size in
  the context are the values of the bytes 0 to 7 and 8 to 15 of the configuration space,
  least significant byte first.
\<close>

theorem config_fields_little_endian:
  assumes "shm_region h = None"
    and "config_get h" and "kzalloc_ok h" and "\<not> IS_ERR (find_single_vq h)"
  shows "unat (start (the_vpmem (snd (virtio_pmem_probe h w)))) =
           (\<Sum>i = 0..<8. unat (config_space h i) * 256 ^ i)
       \<and> unat (size (the_vpmem (snd (virtio_pmem_probe h w)))) =
           (\<Sum>i = 0..<8. unat (config_space h (8 + i)) * 256 ^ i)
       \<and> EV_cread_le CFG_start \<in> set (trace (snd (virtio_pmem_probe h w)))
       \<and> EV_cread_le CFG_size \<in> set (trace (snd (virtio_pmem_probe h w)))"
proof -
  from probe_past_vq(2) [OF assms(2-4), of w] obtain evs where
    "trace (snd (virtio_pmem_probe h w)) =
       trace w @ EV_find_single_vq ''flush_queue'' (find_single_vq h)
         # discover_events h @ evs" ..
  then have reads: "EV_cread_le CFG_start \<in> set (trace (snd (virtio_pmem_probe h w)))"
    "EV_cread_le CFG_size \<in> set (trace (snd (virtio_pmem_probe h w)))"
    using assms(1) by (simp_all add: discover_events_cfg)
  have "the_vpmem (snd (virtio_pmem_probe h w)) = probe_ctx h"
    using probe_past_vq(1) [OF assms(2-4), of w] by (simp add: the_vpmem_def)
  moreover have "start (probe_ctx h) = le_to_cpu (config_bytes h CFG_start)"
    "size (probe_ctx h) = le_to_cpu (config_bytes h CFG_size)"
    using assms(1) by (simp_all add: probe_ctx_def discovered_def)
  ultimately show ?thesis
    using reads unat_config_field [of h CFG_start] unat_config_field [of h CFG_size]
    by simp
qed

text \<open>
  Claim C2 on \<open>host_cfg\<close>, whose configuration space has byte 4 set to 2 and byte 10
  set to \<open>0x10\<close>.
\<close>

theorem config_fields_little_endian_witness:
  "shm_region host_cfg = None
   \<and> unat (start (the_vpmem (snd (virtio_pmem_probe host_cfg fresh)))) = 0x200000000
   \<and> unat (size (the_vpmem (snd (virtio_pmem_probe host_cfg fresh)))) = 0x100000"
proof -
  have cfg: "config_space host_cfg = (\<lambda>i. if i = 4 then 2 else if i = 10 then 0x10 else 0)"
    by (simp add: host_cfg_def host_shm_def)
  from config_fields_little_endian [OF host_cfg_ok(6) host_cfg_ok(1-3), of fresh]
  show ?thesis
    by (simp add: cfg sum_upt_8 host_cfg_ok)
qed

text \<open>
  Claim C3 does not hold as it is stated. The attach on \<open>host_no_get\<close> fails with
  \<open>- EINVAL\<close> although the capability source is there and advertises the region: the
  first check of the attach looks at \<^verbatim>\<open>config->get\<close> only. And the attach on
  \<open>host_vq_einval\<close> returns \<open>- EINVAL\<close> although configuration access is enabled:
  the errno of a failed queue allocation is passed through.
\<close>

theorem config_unavailable_counterexample:
  "fst (virtio_pmem_probe host_no_get fresh) = - EINVAL
   \<and> shm_region host_no_get = Some (0x100000000, 0x40000000)
   \<and> config_get host_vq_einval
   \<and> fst (virtio_pmem_probe host_vq_einval fresh) = - EINVAL"
proof -
  have "\<not> config_get host_no_get"
    by (simp add: host_no_get_def host_shm_def)
  then have "fst (virtio_pmem_probe host_no_get fresh) = - EINVAL"
    by (simp add: probe_no_get)
  moreover have "config_get host_vq_einval" "kzalloc_ok host_vq_einval"
    "IS_ERR (find_single_vq host_vq_einval)"
    "PTR_ERR (find_single_vq host_vq_einval) = - EINVAL"
    by (simp_all add: host_vq_einval_def host_shm_def MAX_ERRNO_def EINVAL_def)
  then have "fst (virtio_pmem_probe host_vq_einval fresh) = - EINVAL"
    "config_get host_vq_einval"
    by (simp_all add: probe_vq_fail)
  ultimately show ?thesis
    by (simp add: host_no_get_def host_shm_def)
qed

text \<open>
  Claim C3, amended. The attach returns \<open>- EINVAL\<close> and leaves the state as it found
  it (no context, no call logged) if and only if the transport has no
  \<^verbatim>\<open>config->get\<close> operation, whether or not a shared-memory region is advertised.
\<close>

theorem config_unavailable_iff:
  "(fst (virtio_pmem_probe h w) = - EINVAL \<and> snd (virtio_pmem_probe h w) = w)
     \<longleftrightarrow> \<not> config_get h"
proof (cases h rule: probe_cases)
  case no_get
  then show ?thesis by (simp add: probe_no_get)
next
  case no_mem
  then show ?thesis by (simp add: probe_no_mem EINVAL_def ENOMEM_def)
next
  case vq_fail
  have "trace (snd (virtio_pmem_probe h w)) \<noteq> trace w"
    using vq_fail by (simp add: probe_vq_fail)
  then have "snd (virtio_pmem_probe h w) \<noteq> w" by auto
  with vq_fail show ?thesis by simp
next
  case bus_fail
  have "trace (snd (virtio_pmem_probe h w)) \<noteq> trace w"
    using bus_fail by (simp add: probe_bus_fail)
  then have "snd (virtio_pmem_probe h w) \<noteq> w" by auto
  with bus_fail show ?thesis by simp
next
  case (region_fail b)
  have "trace (snd (virtio_pmem_probe h w)) \<noteq> trace w"
    using region_fail by (simp add: probe_region_fail)
  then have "snd (virtio_pmem_probe h w) \<noteq> w" by auto
  with region_fail show ?thesis by simp
next
  case (ok b r)
  then show ?thesis by (simp add: probe_ok EINVAL_def)
qed

text \<open>
  The amended claim C3 on \<open>host_no_get\<close>.
\<close>

theorem config_unavailable_iff_witness:
  "fst (virtio_pmem_probe host_no_get fresh) = - EINVAL
   \<and> snd (virtio_pmem_probe host_no_get fresh) = fresh
   \<and> \<not> config_get host_no_get"
  using config_unavailable_iff [of host_no_get fresh]
  by (simp add: host_no_get_def host_shm_def)

section \<open>Attach and detach\<close>

text \<open>
  Claim C4. An attach of a fresh device that returns an error leaves no region and no
  bus registered and no queue allocated, and the resources its exit path releases are the
  resources it had acquired, in reverse order. The one value it returns is the error: a
  negative errno, that of the step that failed.
\<close>

theorem attach_failure_unwinds:
  assumes "fst (virtio_pmem_probe h fresh) \<noteq> 0"
  shows "\<not> region_registered (snd (virtio_pmem_probe h fresh))
       \<and> \<not> bus_registered (snd (virtio_pmem_probe h fresh))
       \<and> \<not> vq_allocated (snd (virtio_pmem_probe h fresh))
       \<and> released (trace (snd (virtio_pmem_probe h fresh)))
           = rev (acquired (trace (snd (virtio_pmem_probe h fresh))))
       \<and> fst (virtio_pmem_probe h fresh)
           \<in> {- EINVAL, - ENOMEM, PTR_ERR (find_single_vq h), - ENXIO}
       \<and> fst (virtio_pmem_probe h fresh) < 0"
proof (cases h rule: probe_cases)
  case no_get
  then show ?thesis
    by (simp add: probe_no_get fresh_def EINVAL_def bus_registered_def)
next
  case no_mem
  then show ?thesis
    by (simp add: probe_no_mem fresh_def ENOMEM_def bus_registered_def)
next
  case vq_fail
  then have "PTR_ERR (find_single_vq h) < 0"
    by (cases "find_single_vq h") simp_all
  with vq_fail show ?thesis
    by (simp add: probe_vq_fail fresh_def bus_registered_def)
next
  case bus_fail
  then show ?thesis
    by (simp add: probe_bus_fail fresh_def acquired_append released_append
        discover_events_plain ENXIO_def bus_registered_def)
next
  case (region_fail b)
  then show ?thesis
    by (simp add: probe_region_fail fresh_def acquired_append released_append
        discover_events_plain ENXIO_def bus_registered_def)
next
  case (ok b r)
  with assms show ?thesis by (simp add: probe_ok)
qed

text \<open>
  Claim C4 on the hosts that fail at region creation, at bus registration and at queue
  allocation.
\<close>

theorem attach_failure_unwinds_witness:
  "fst (virtio_pmem_probe host_region_fail fresh) = - 6
   \<and> \<not> region_registered (snd (virtio_pmem_probe host_region_fail fresh))
   \<and> \<not> bus_registered (snd (virtio_pmem_probe host_region_fail fresh))
   \<and> \<not> vq_allocated (snd (virtio_pmem_probe host_region_fail fresh))
   \<and> acquired (trace (snd (virtio_pmem_probe host_region_fail fresh)))
       = [RES_queue, RES_bus, RES_ready]
   \<and> released (trace (snd (virtio_pmem_probe host_region_fail fresh)))
       = [RES_ready, RES_bus, RES_queue]
   \<and> fst (virtio_pmem_probe host_bus_fail fresh) = - 6
   \<and> \<not> vq_allocated (snd (virtio_pmem_probe host_bus_fail fresh))
   \<and> released (trace (snd (virtio_pmem_probe host_bus_fail fresh))) = [RES_queue]
   \<and> fst (virtio_pmem_probe host_vq_einval fresh) = - 22
   \<and> \<not> vq_allocated (snd (virtio_pmem_probe host_vq_einval fresh))
   \<and> released (trace (snd (virtio_pmem_probe host_vq_einval fresh))) = []"
proof -
  have acq: "acquired (trace (snd (virtio_pmem_probe host_region_fail fresh)))
      = [RES_queue, RES_bus, RES_ready]"
    "acquired (trace (snd (virtio_pmem_probe host_bus_fail fresh))) = [RES_queue]"
    "acquired (trace (snd (virtio_pmem_probe host_vq_einval fresh))) = []"
    by (simp_all add: probe_vq_fail probe_bus_fail probe_region_fail host_fail_facts
        fresh_def acquired_append discover_events_plain)
  show ?thesis
    using attach_failure_unwinds [of host_region_fail]
      attach_failure_unwinds [of host_bus_fail]
      attach_failure_unwinds [of host_vq_einval]
    by (simp add: host_fail_results acq)
qed




section \<open>The region descriptor\<close>

text \<open>
  Claim C6. An attach that gets as far as creating the region hands over one descriptor.
  Its resource starts at the discovered address, and its target node is the node computed
  from that address when the platform reports no node for it, and the node the platform
  reports otherwise.
\<close>

theorem target_node_fallback:
  assumes "config_get h" and "kzalloc_ok h" and "\<not> IS_ERR (find_single_vq h)"
    and "bus_register h = Some b"
  shows "\<exists>d. region_descs (trace (snd (virtio_pmem_probe h fresh))) = [d]
           \<and> res_start d = start (the_vpmem (snd (virtio_pmem_probe h fresh)))
           \<and> target_node d =
               (if phys_to_target_node h (res_start d) = NUMA_NO_NODE
                then memory_add_physaddr_to_nid h (res_start d)
                else phys_to_target_node h (res_start d))"
  using probe_region_descs [OF assms]
  by (simp add: probe_desc_def make_ndr_desc_def Let_def probe_ctx_def)

text \<open>
  Claim C6 on \<open>host_shm\<close>, where the platform reports no node, and on \<open>host_cfg\<close>,
  where it reports node 3.
\<close>

theorem target_node_fallback_witness:
  "map target_node (region_descs (trace (snd (virtio_pmem_probe host_shm fresh)))) = [1]
   \<and> phys_to_target_node host_shm 0x100000000 = NUMA_NO_NODE
   \<and> memory_add_physaddr_to_nid host_shm 0x100000000 = 1
   \<and> map target_node (region_descs (trace (snd (virtio_pmem_probe host_cfg fresh)))) = [3]
   \<and> phys_to_target_node host_cfg 0x200000000 = 3"
proof -
  from target_node_fallback [OF host_shm_ok(1-4)] obtain d where
    d: "region_descs (trace (snd (virtio_pmem_probe host_shm fresh))) = [d]"
      "res_start d = start (the_vpmem (snd (virtio_pmem_probe host_shm fresh)))"
      "target_node d =
         (if phys_to_target_node host_shm (res_start d) = NUMA_NO_NODE
          then memory_add_physaddr_to_nid host_shm (res_start d)
          else phys_to_target_node host_shm (res_start d))"
    by blast
  have "res_start d = 0x100000000"
    using d(2) probe_region_descs(2) [OF host_shm_ok(1-4)]
    by (simp add: probe_ctx_def discovered_def host_shm_ok(6))
  then have "target_node d = 1"
    using d(3) by (simp add: host_shm_def NUMA_NO_NODE_def)
  with d(1) have a: "map target_node (region_descs (trace (snd (virtio_pmem_probe host_shm fresh)))) = [1]"
    by simp
  from target_node_fallback [OF host_cfg_ok(1-4)] obtain e where
    e: "region_descs (trace (snd (virtio_pmem_probe host_cfg fresh))) = [e]"
      "target_node e =
         (if phys_to_target_node host_cfg (res_start e) = NUMA_NO_NODE
          then memory_add_physaddr_to_nid host_cfg (res_start e)
          else phys_to_target_node host_cfg (res_start e))"
    by blast
  have "target_node e = 3"
    using e(2) by (simp add: host_cfg_def host_shm_def NUMA_NO_NODE_def)
  with e(1) have b: "map target_node (region_descs (trace (snd (virtio_pmem_probe host_cfg fresh)))) = [3]"
    by simp
  show ?thesis
    using a b by (simp add: host_cfg_def host_shm_def NUMA_NO_NODE_def)
qed

text \<open>
  Claim C7 does not hold as it is stated. On \<open>host_wrap\<close> the region starts at the last
  64-bit address and has size 2: the end handed to the region-create primitive is 0,
  while the start plus the size minus one is \<open>2 ^ 64\<close>.
\<close>

theorem region_end_counterexample:
  "size (the_vpmem (snd (virtio_pmem_probe host_wrap fresh))) = 2
   \<and> start (the_vpmem (snd (virtio_pmem_probe host_wrap fresh))) = 0xFFFFFFFFFFFFFFFF
   \<and> map res_end (region_descs (trace (snd (virtio_pmem_probe host_wrap fresh)))) = [0]
   \<and> uint (start (the_vpmem (snd (virtio_pmem_probe host_wrap fresh))))
       + uint (size (the_vpmem (snd (virtio_pmem_probe host_wrap fresh)))) - 1
       = 18446744073709551616"
proof -
  have ok: "config_get host_wrap" "kzalloc_ok host_wrap" "\<not> IS_ERR (find_single_vq host_wrap)"
    "bus_register host_wrap = Some 7"
    and shm: "shm_region host_wrap = Some (0xFFFFFFFFFFFFFFFF, 2)"
    by (simp_all add: host_wrap_def host_shm_def)
  have "start (probe_ctx host_wrap) = 0xFFFFFFFFFFFFFFFF" "size (probe_ctx host_wrap) = 2"
    "res_end (probe_desc host_wrap) = 0"
    by (simp_all add: probe_ctx_def probe_desc_def make_ndr_desc_def Let_def discovered_def shm
        nd_region_desc_zero_def)
  then show ?thesis
    using probe_region_descs [OF ok] by simp
qed

text \<open>
  Claim C7, amended. For a discovered range of non-zero size, the end of the resource
  handed to the region-create primitive is the start plus the size minus one, reduced
  modulo \<open>2 ^ 64\<close>; it is the start plus the size minus one itself whenever the start
  plus the size is at most \<open>2 ^ 64\<close>.
\<close>

theorem region_end_modular:
  assumes "config_get h" and "kzalloc_ok h" and "\<not> IS_ERR (find_single_vq h)"
    and "bus_register h = Some b"
    and "size (the_vpmem (snd (virtio_pmem_probe h fresh))) \<noteq> 0"
  shows "\<exists>d. region_descs (trace (snd (virtio_pmem_probe h fresh))) = [d]
           \<and> res_start d = start (the_vpmem (snd (virtio_pmem_probe h fresh)))
           \<and> uint (res_end d) =
               (uint (start (the_vpmem (snd (virtio_pmem_probe h fresh))))
                 + uint (size (the_vpmem (snd (virtio_pmem_probe h fresh)))) - 1) mod 2 ^ 64
           \<and> (uint (start (the_vpmem (snd (virtio_pmem_probe h fresh))))
                 + uint (size (the_vpmem (snd (virtio_pmem_probe h fresh)))) \<le> 2 ^ 64 \<longrightarrow>
               uint (res_end d) =
                 uint (start (the_vpmem (snd (virtio_pmem_probe h fresh))))
                 + uint (size (the_vpmem (snd (virtio_pmem_probe h fresh)))) - 1)"
proof -
  let ?s = "fst (discovered h)" and ?z = "snd (discovered h)"
  have d: "region_descs (trace (snd (virtio_pmem_probe h fresh))) = [probe_desc h]"
    and v: "the_vpmem (snd (virtio_pmem_probe h fresh)) = probe_ctx h"
    using probe_region_descs [OF assms(1-4)] by simp_all
  have sz: "start (probe_ctx h) = ?s" "size (probe_ctx h) = ?z"
    by (simp_all add: probe_ctx_def)
  have de: "res_start (probe_desc h) = ?s" "res_end (probe_desc h) = ?s + ?z - 1"
    by (simp_all add: probe_desc_def make_ndr_desc_def Let_def)
  have "?z \<noteq> 0"
    using assms(5) v sz by simp
  then have "uint ?z \<noteq> 0"
    by (simp add: unsigned_eq_0_iff)
  then have pos: "0 < uint ?z"
    using uint_ge_0 [of ?z] by linarith
  have m: "uint (?s + ?z - 1) = (uint ?s + uint ?z - 1) mod 2 ^ 64"
    by (rule uint_end)
  have "uint (?s + ?z - 1) = uint ?s + uint ?z - 1" if "uint ?s + uint ?z \<le> 2 ^ 64"
  proof -
    have "0 \<le> uint ?s + uint ?z - 1" "uint ?s + uint ?z - 1 < 2 ^ 64"
      using pos that uint_ge_0 [of ?s] by linarith+
    then show ?thesis
      using m by simp
  qed
  with m show ?thesis
    by (simp add: d v sz de)
qed

text \<open>
  The amended claim C7 on \<open>host_shm\<close>: 1 GiB at 4 GiB ends at \<open>0x13FFFFFFF\<close>.
\<close>

theorem region_end_modular_witness:
  "size (the_vpmem (snd (virtio_pmem_probe host_shm fresh))) = 0x40000000
   \<and> map res_start (region_descs (trace (snd (virtio_pmem_probe host_shm fresh))))
       = [0x100000000]
   \<and> map res_end (region_descs (trace (snd (virtio_pmem_probe host_shm fresh))))
       = [0x13FFFFFFF]"
proof -
  have v: "the_vpmem (snd (virtio_pmem_probe host_shm fresh)) = probe_ctx host_shm"
    by (rule probe_region_descs(2) [OF host_shm_ok(1-4)])
  have sz: "start (probe_ctx host_shm) = 0x100000000" "size (probe_ctx host_shm) = 0x40000000"
    by (simp_all add: probe_ctx_def discovered_def host_shm_ok(6))
  have nz: "size (the_vpmem (snd (virtio_pmem_probe host_shm fresh))) \<noteq> 0"
    by (simp add: v sz)
  from region_end_modular [OF host_shm_ok(1-4) nz] obtain d where
    d: "region_descs (trace (snd (virtio_pmem_probe host_shm fresh))) = [d]"
      "res_start d = start (the_vpmem (snd (virtio_pmem_probe host_shm fresh)))"
      "uint (start (the_vpmem (snd (virtio_pmem_probe host_shm fresh))))
         + uint (size (the_vpmem (snd (virtio_pmem_probe host_shm fresh)))) \<le> 2 ^ 64 \<longrightarrow>
       uint (res_end d) =
         uint (start (the_vpmem (snd (virtio_pmem_probe host_shm fresh))))
         + uint (size (the_vpmem (snd (virtio_pmem_probe host_shm fresh)))) - 1"
    by blast
  from d(3) have "uint (res_end d) = 0x13FFFFFFF"
    by (simp add: v sz)
  then have "uint (res_end d) = uint (0x13FFFFFFF :: u64)"
    by simp
  then have "res_end d = 0x13FFFFFFF"
    by (simp only: word_uint_eq_iff)
  with d(1,2) show ?thesis
    by (simp add: v sz)
qed

section \<open>Requests and completions\<close>

text \<open>
  Claim C8. Let callers submit in order on an empty queue, and let the host complete
  some of the issued tokens, each at most once, in any order. Then the tokens issued are
  distinct, and every completion signals exactly the caller that was given its token,
  with the status of that completion.
\<close>

theorem completion_resolves_by_token:
  assumes "submit_all callers flush_queue_init = (issued, q)"
    and "distinct (map fst ds)"
    and "fst ` set ds \<subseteq> fst ` set issued"
  shows "distinct (map fst issued)
       \<and> map snd issued = callers
       \<and> fst (dispatch ds q) = map (\<lambda>d. Some (the (map_of issued (fst d)), snd d)) ds"
proof -
  from submit_all_issued [OF assms(1)]
  have iss: "issued = zip [0 ..< length callers] callers"
    and pend: "pending q = map new_request issued"
    by (simp_all add: flush_queue_init_def)
  from iss have dist: "distinct (map fst issued)" and callers: "map snd issued = callers"
    by simp_all
  have look: "find (\<lambda>r. token r = fst d) (pending q)
      = Some (new_request (fst d, the (map_of issued (fst d))))" if "d \<in> set ds" for d
  proof -
    from that assms(3) obtain c where c: "(fst d, c) \<in> set issued"
      by force
    with dist have "map_of issued (fst d) = Some c"
      by (rule map_of_is_SomeI)
    with find_new_request [OF dist c] show ?thesis
      by (simp add: pend)
  qed
  then have "\<forall>d \<in> set ds. find (\<lambda>r. token r = fst d) (pending q) \<noteq> None"
    by simp
  from dispatch_by_token [OF assms(2) this]
  have "fst (dispatch ds q) =
     map (\<lambda>d. Some (caller (the (find (\<lambda>r. token r = fst d) (pending q))), snd d)) ds" .
  also have "\<dots> = map (\<lambda>d. Some (the (map_of issued (fst d)), snd d)) ds"
    using look by (intro map_cong) (simp_all add: new_request_def)
  finally show ?thesis
    using dist callers by simp
qed

text \<open>
  Claim C8 on three callers whose requests complete in the order third, first, second.
\<close>

theorem completion_resolves_by_token_witness:
  "fst (submit_all [40, 41, 42] flush_queue_init) = [(0, 40), (1, 41), (2, 42)]
   \<and> fst (dispatch [(2, Success), (0, IoError 5), (1, Success)]
            (snd (submit_all [40, 41, 42] flush_queue_init)))
       = [Some (42, Success), Some (40, IoError 5), Some (41, Success)]"
proof -
  have s: "submit_all [40, 41, 42] flush_queue_init
      = ([(0, 40), (1, 41), (2, 42)], snd (submit_all [40, 41, 42] flush_queue_init))"
    by (simp add: submit_flush_def flush_queue_init_def Let_def)
  from completion_resolves_by_token [OF s, of "[(2, Success), (0, IoError 5), (1, Success)]"]
  show ?thesis
    by (simp add: submit_flush_def flush_queue_init_def Let_def)
qed

text \<open>
  Claim C9. When the queue is found, \<^verbatim>\<open>init_vq\<close> on the context that the attach has
  just allocated returns 0 and leaves the device with its queue, the queue pointer in the
  context, the request list empty and the lock initialised and not held; the list and the
  lock are in that state at the end of the attach as well.
\<close>

theorem init_vq_queue_ready:
  assumes "config_get h" and "kzalloc_ok h" and "\<not> IS_ERR (find_single_vq h)"
  shows "\<exists>w1. init_vq h (w\<lparr>priv := Some kzalloc_virtio_pmem\<rparr>) = (0, w1)
           \<and> vq_allocated w1
           \<and> req_vq (the_vpmem w1) = find_single_vq h
           \<and> req_list (the_vpmem w1) = LIST_OF []
           \<and> pmem_lock (the_vpmem w1) = LOCK_UNLOCKED
           \<and> req_list (the_vpmem (snd (virtio_pmem_probe h w))) = LIST_OF []
           \<and> pmem_lock (the_vpmem (snd (virtio_pmem_probe h w))) = LOCK_UNLOCKED"
proof -
  have "the_vpmem (snd (virtio_pmem_probe h w)) = probe_ctx h"
    using probe_past_vq(1) [OF assms, of w] by (simp add: the_vpmem_def)
  then show ?thesis
    using assms by (simp add: init_vq_def prim_defs probe_ctx_def Let_def)
qed

text \<open>
  Claim C9 on \<open>host_shm\<close>.
\<close>

theorem init_vq_queue_ready_witness:
  "fst (init_vq host_shm (fresh\<lparr>priv := Some kzalloc_virtio_pmem\<rparr>)) = 0
   \<and> req_list (the_vpmem (snd (init_vq host_shm (fresh\<lparr>priv := Some kzalloc_virtio_pmem\<rparr>))))
       = LIST_OF []
   \<and> pmem_lock (the_vpmem (snd (init_vq host_shm (fresh\<lparr>priv := Some kzalloc_virtio_pmem\<rparr>))))
       = LOCK_UNLOCKED
   \<and> req_list (the_vpmem (snd (virtio_pmem_probe host_shm fresh))) = LIST_OF []
   \<and> pmem_lock (the_vpmem (snd (virtio_pmem_probe host_shm fresh))) = LOCK_UNLOCKED"
proof -
  from init_vq_queue_ready [OF host_shm_ok(1-3), of fresh] obtain w1 where
    "init_vq host_shm (fresh\<lparr>priv := Some kzalloc_virtio_pmem\<rparr>) = (0, w1)"
    "req_list (the_vpmem w1) = LIST_OF []" "pmem_lock (the_vpmem w1) = LOCK_UNLOCKED"
    "req_list (the_vpmem (snd (virtio_pmem_probe host_shm fresh))) = LIST_OF []"
    "pmem_lock (the_vpmem (snd (virtio_pmem_probe host_shm fresh))) = LOCK_UNLOCKED"
    by blast
  then show ?thesis
    by simp
qed

section \<open>Ready and reset\<close>

text \<open>
  Claim C10. In the log of an attach no region is created before the device is marked
  ready and no bus is unregistered before the device is reset; an attach that returns an
  error leaves the device not ready; and when the creation of the region fails the log
  ends with: ready, create, reset, unregister, release of the queue.
\<close>

theorem ready_before_region_create:
  "ready_before_create (trace (snd (virtio_pmem_probe h fresh)))
   \<and> precedes EV_reset_device EV_bus_unregister (trace (snd (virtio_pmem_probe h fresh)))
   \<and> (fst (virtio_pmem_probe h fresh) \<noteq> 0 \<longrightarrow>
        \<not> driver_ok (snd (virtio_pmem_probe h fresh)))
   \<and> (config_get h \<and> kzalloc_ok h \<and> \<not> IS_ERR (find_single_vq h)
        \<and> bus_register h \<noteq> None \<and> region_create h = None \<longrightarrow>
        (\<exists>evs d. trace (snd (virtio_pmem_probe h fresh)) =
           evs @ [EV_device_ready, EV_region_create d None,
                  EV_reset_device, EV_bus_unregister, EV_del_vqs]))"
proof (cases h rule: probe_cases)
  case no_get
  then show ?thesis by (simp add: probe_no_get fresh_def)
next
  case no_mem
  then show ?thesis by (simp add: probe_no_mem fresh_def)
next
  case vq_fail
  then show ?thesis by (simp add: probe_vq_fail fresh_def)
next
  case bus_fail
  then show ?thesis
    by (cases "shm_region h")
       (simp_all add: probe_bus_fail fresh_def discover_events_def)
next
  case (region_fail b)
  then show ?thesis
    by (cases "shm_region h")
       (simp_all add: probe_region_fail fresh_def discover_events_def)
next
  case (ok b r)
  then show ?thesis
    by (cases "shm_region h")
       (simp_all add: probe_ok fresh_def discover_events_def)
qed

text \<open>
  Claim C10 on \<open>host_region_fail\<close>, with the whole log.
\<close>

theorem ready_before_region_create_witness:
  "fst (virtio_pmem_probe host_region_fail fresh) = - 6
   \<and> \<not> driver_ok (snd (virtio_pmem_probe host_region_fail fresh))
   \<and> trace (snd (virtio_pmem_probe host_region_fail fresh)) =
       [EV_find_single_vq ''flush_queue'' (VQ 1), EV_get_shm_region,
        EV_bus_register (Some 7), EV_device_ready,
        EV_region_create (probe_desc host_region_fail) None,
        EV_reset_device, EV_bus_unregister, EV_del_vqs]
   \<and> ready_before_create (trace (snd (virtio_pmem_probe host_region_fail fresh)))
   \<and> precedes EV_reset_device EV_bus_unregister
       (trace (snd (virtio_pmem_probe host_region_fail fresh)))"
proof -
  have shm: "shm_region host_region_fail = Some (0x100000000, 0x40000000)"
    and q: "find_single_vq host_region_fail = VQ 1"
    by (simp_all add: host_region_fail_def host_shm_def)
  have tr: "trace (snd (virtio_pmem_probe host_region_fail fresh)) =
       [EV_find_single_vq ''flush_queue'' (VQ 1), EV_get_shm_region,
        EV_bus_register (Some 7), EV_device_ready,
        EV_region_create (probe_desc host_region_fail) None,
        EV_reset_device, EV_bus_unregister, EV_del_vqs]"
    by (simp add: probe_region_fail [OF host_fail_facts(8-12)] fresh_def
        discover_events_shm [OF shm] q host_fail_facts(11))
  show ?thesis
    using ready_before_region_create [of host_region_fail]
    by (simp add: host_fail_results tr)
qed

end
